theory Spec2Isabelle
  imports Complex_Main
begin

section \<open>Conventions of the embedding\<close>

text \<open>
  The kernel generator and the ontogenesis engine are written in TypeScript. Their
  \<^verbatim>\<open>number\<close> is modelled by \<^typ>\<open>real\<close> where it holds a measurement (a coefficient,
  a grip score, a rate) and by \<^typ>\<open>nat\<close> where it holds an order, a count, an index or
  an age. The values of a JavaScript number that \<^typ>\<open>real\<close> lacks, NaN and the
  infinities, arise in this code only from a division by the length of an empty array, from
  \<^verbatim>\<open>Math.max()\<close> of no arguments and from a read past the end of an array; a
  statement about a value computed that way carries the hypothesis that the array is not
  empty. The rounding of double arithmetic is not modelled; where the result of a function
  is nothing but a double evaluation, as the estimate of \<^verbatim>\<open>count\<close> is, that
  evaluation is a parameter.
\<close>

section \<open>Elementary differentials (rooted trees)\<close>

datatype RootedTree =
  RootedTree (order: nat) (label: string) (children: "RootedTree list")

text \<open>The prime sign of a label, as a one-character string.\<close>

definition prime :: string where
  "prime = [CHR 0x27]"

text \<open>\<^verbatim>\<open>generatePartitions(n)\<close>: the partitions of \<open>n\<close>, parts in non-decreasing order.\<close>

fun generatePartitions :: "nat \<Rightarrow> nat list list" where
  "generatePartitions n =
     (if n = 0 then [[]]
      else if n = 1 then [[1]]
      else concat (map (\<lambda>i.
             let remaining = n - i in
             if remaining = 0 then [[i]]
             else map (\<lambda>sub. i # sub)
                    (filter (\<lambda>sub. length sub = 0 \<or> i \<le> hd sub)
                       (generatePartitions remaining)))
           [1..<Suc n]))"

declare generatePartitions.simps [simp del]

text \<open>\<^verbatim>\<open>generateLabel(subtrees)\<close>\<close>

definition join_labels :: "string list \<Rightarrow> string" where
  "join_labels ls = (case ls of [] \<Rightarrow> [] | l # rest \<Rightarrow> l @ concat (map (\<lambda>s. '', '' @ s) rest))"

definition generateLabel :: "RootedTree list \<Rightarrow> string" where
  "generateLabel subtrees =
     (if length subtrees = 0 then ''f''
      else if length subtrees = 1 then ''f'' @ prime @ ''('' @ label (subtrees ! 0) @ '')''
      else ''f'' @ concat (replicate (length subtrees - 1) prime)
             @ ''('' @ join_labels (map label subtrees) @ '')'')"

text \<open>The leaf, and the trees of the catalogue for the orders 2 and 3, which the catalogue
  of order 4 uses as children.\<close>

definition leaf :: RootedTree where
  "leaf = RootedTree 1 ''f'' []"

definition tree2 :: RootedTree where
  "tree2 = RootedTree 2 (''f'' @ prime @ ''(f)'') [leaf]"

definition tree3_bushy :: RootedTree where
  "tree3_bushy = RootedTree 3 (''f'' @ prime @ prime @ ''(f, f)'') [leaf, leaf]"

definition tree3_tall :: RootedTree where
  "tree3_tall = RootedTree 3 (''f'' @ prime @ ''(f'' @ prime @ ''(f))'') [tree2]"

definition catalogue4 :: "RootedTree list" where
  "catalogue4 =
     [RootedTree 4 (''f'' @ prime @ prime @ prime @ ''(f, f, f)'') [leaf, leaf, leaf],
      RootedTree 4 (''f'' @ prime @ prime @ ''(f'' @ prime @ ''(f), f)'') [tree2, leaf],
      RootedTree 4 (''f'' @ prime @ prime @ ''(f, f'' @ prime @ ''(f))'') [leaf, tree2],
      RootedTree 4 (''f'' @ prime @ ''(f'' @ prime @ prime @ ''(f, f))'') [tree3_bushy],
      RootedTree 4 (''f'' @ prime @ ''(f'' @ prime @ ''(f'' @ prime @ ''(f)))'') [tree3_tall]]"

lemma generatePartitions_parts:
  "part \<in> set (generatePartitions n) \<Longrightarrow> p \<in> set part \<Longrightarrow> 1 \<le> p \<and> p \<le> n"
proof (induction n arbitrary: part p rule: less_induct)
  case (less n)
  show ?case
  proof (cases "n = 0 \<or> n = 1")
    case True
    with less.prems show ?thesis
      by (auto simp: generatePartitions.simps [of n])
  next
    case False
    with less.prems(1) obtain i where i: "1 \<le> i" "i \<le> n"
      and part: "(n - i = 0 \<and> part = [i]) \<or>
          (n - i \<noteq> 0 \<and> (\<exists>sub \<in> set (generatePartitions (n - i)). part = i # sub))"
      by (fastforce simp: generatePartitions.simps [of n] Let_def split: if_splits)
    from part show ?thesis
    proof
      assume "n - i = 0 \<and> part = [i]"
      with less.prems(2) i show ?thesis by simp
    next
      assume rec: "n - i \<noteq> 0 \<and> (\<exists>sub \<in> set (generatePartitions (n - i)). part = i # sub)"
      then obtain sub where sub: "sub \<in> set (generatePartitions (n - i))"
        and eq: "part = i # sub"
        by blast
      from i rec have "n - i < n" by simp
      from less.IH [OF this sub] have "\<And>q. q \<in> set sub \<Longrightarrow> 1 \<le> q \<and> q \<le> n - i" .
      with less.prems(2) eq i show ?thesis by fastforce
    qed
  qed
qed

text \<open>\<^verbatim>\<open>generate(order)\<close> and \<^verbatim>\<open>generateRecursive(n)\<close>. The orders 1 to 4 answer from the
  catalogue; a larger order builds one tree for each partition of \<open>n - 1\<close>, taking as
  children the first tree of each part.\<close>

function generate :: "nat \<Rightarrow> RootedTree list"
  and generateRecursive :: "nat \<Rightarrow> RootedTree list" where
  "generate order' =
     (if order' \<le> 0 then []
      else if order' = 1 then [leaf]
      else if order' = 2 then [tree2]
      else if order' = 3 then [tree3_bushy, tree3_tall]
      else if order' = 4 then catalogue4
      else generateRecursive order')"
| "generateRecursive n =
     concat (map (\<lambda>part.
        let subtrees = concat (map (\<lambda>p.
              let subtree = generate p in
              if length subtree > 0 then [subtree ! 0] else []) part)
        in if length subtrees > 0
           then [RootedTree n (generateLabel subtrees) subtrees]
           else [])
       (generatePartitions (n - 1)))"
  by pat_completeness auto
termination
proof (relation "measure (\<lambda>x. case x of Inl n \<Rightarrow> 2 * n + 1 | Inr n \<Rightarrow> 2 * n)")
  show "wf (measure (\<lambda>x. case x of Inl n \<Rightarrow> 2 * n + 1 | Inr n \<Rightarrow> 2 * n))"
    by simp
next
  fix order' :: nat
  assume "\<not> order' \<le> 0"
  then show "(Inr order', Inl order') \<in> measure (\<lambda>x. case x of Inl n \<Rightarrow> 2 * n + 1 | Inr n \<Rightarrow> 2 * n)"
    by simp
next
  fix n :: nat and part :: "nat list" and p :: nat
  assume "part \<in> set (generatePartitions (n - 1))" and "p \<in> set part"
  then have "1 \<le> p \<and> p \<le> n - 1"
    by (rule generatePartitions_parts)
  then show "(Inl p, Inr n) \<in> measure (\<lambda>x. case x of Inl n \<Rightarrow> 2 * n + 1 | Inr n \<Rightarrow> 2 * n)"
    by (simp, arith)
qed

declare generate.simps [simp del] generateRecursive.simps [simp del]

text \<open>\<^verbatim>\<open>count(n)\<close>: the table, and past its end the asymptotic estimate
  \<^verbatim>\<open>Math.floor(Math.pow(2.9557652856, n) / Math.sqrt(n))\<close>. The source evaluates the
  estimate in double arithmetic, where \<^verbatim>\<open>Math.pow\<close> is an approximation that the
  language leaves to the implementation, the quotient is rounded, and a power too large for
  a double is \<^verbatim>\<open>Infinity\<close>. The result of that evaluation is therefore a parameter of
  the model, \<open>estimate n\<close>: an integer or \<^verbatim>\<open>Infinity\<close>.\<close>

datatype number = Finite int | Infinity

definition a000081 :: "nat list" where
  "a000081 = [0, 1, 1, 2, 4, 9, 20, 48, 115, 286, 719, 1842, 4766, 12486, 32973]"

definition count :: "(nat \<Rightarrow> number) \<Rightarrow> nat \<Rightarrow> number" where
  "count estimate n =
     (if n < length a000081 then Finite (int (a000081 ! n))
      else estimate n)"


text \<open>\<^verbatim>\<open>factorial(n)\<close>, which both the tree generator and the B-series engine define.\<close>

fun factorial :: "nat \<Rightarrow> nat" where
  "factorial n = (if n \<le> 1 then 1 else n * factorial (n - 1))"

declare factorial.simps [simp del]

text \<open>\<^verbatim>\<open>symmetryFactor(tree)\<close>. The source counts the children under the key
  \<^verbatim>\<open>JSON.stringify(child)\<close>, which is the same for two children exactly when they are
  equal trees; the keys are therefore the distinct children.\<close>

fun symmetryFactor :: "RootedTree \<Rightarrow> nat" where
  "symmetryFactor (RootedTree ord lab cs) =
     (if length cs = 0 then 1
      else fold (\<lambda>child factor. factor * symmetryFactor child) cs
             (fold (\<lambda>key factor. factor * factorial (count_list cs key)) (remdups cs) 1))"

section \<open>B-series engine\<close>

record ButcherTableau =
  bt_order :: nat
  stages :: nat
  bt_a :: "real list list"
  bt_b :: "real list"
  bt_c :: "real list"

record GripMetric =
  contact :: real
  coverage :: real
  efficiency :: real
  stability :: real
  overall :: real

datatype DomainType = physics | chemistry | biology | computing | consciousness

datatype TreeType = hamiltonian | reaction | metabolic | recursion | echo

record DomainSpecification =
  d_type :: DomainType
  d_order :: nat
  treeType :: TreeType
  symmetry :: string
  preserves :: "string list"

record ElementaryDifferential =
  tree :: RootedTree
  coefficient :: real
  e_grip :: real
  e_order :: nat

record BSeriesExpansion =
  domain :: DomainSpecification
  terms :: "ElementaryDifferential list"
  convergenceOrder :: nat
  grip :: GripMetric

text \<open>\<^verbatim>\<open>Math.max(...xs)\<close> and \<^verbatim>\<open>Math.min(...xs)\<close> of at least one argument. Of no
  argument they are the infinities, which the number types here do not have: no equation
  is given for the empty list.\<close>

fun Math_max :: "'a::linorder list \<Rightarrow> 'a" where
  "Math_max (x # xs) = fold max xs x"

fun Math_min :: "'a::linorder list \<Rightarrow> 'a" where
  "Math_min (x # xs) = fold min xs x"

definition getButcherTableau :: "DomainSpecification \<Rightarrow> ButcherTableau" where
  "getButcherTableau dspec =
     (if d_order dspec = 1 then
        \<lparr>bt_order = 1, stages = 1, bt_a = [[0]], bt_b = [1], bt_c = [0]\<rparr>
      else if d_order dspec = 2 then
        \<lparr>bt_order = 2, stages = 2, bt_a = [[0, 0], [1 / 2, 0]], bt_b = [0, 1], bt_c = [0, 1 / 2]\<rparr>
      else if d_order dspec = 3 then
        \<lparr>bt_order = 3, stages = 3,
         bt_a = [[0, 0, 0], [1 / 2, 0, 0], [- 1, 2, 0]],
         bt_b = [1 / 6, 2 / 3, 1 / 6], bt_c = [0, 1 / 2, 1]\<rparr>
      else
        \<lparr>bt_order = 4, stages = 4,
         bt_a = [[0, 0, 0, 0], [1 / 2, 0, 0, 0], [0, 1 / 2, 0, 0], [0, 0, 1, 0]],
         bt_b = [1 / 6, 1 / 3, 1 / 3, 1 / 6], bt_c = [0, 1 / 2, 1 / 2, 1]\<rparr>)"

text \<open>\<^verbatim>\<open>computeCoefficient(tree, tableau)\<close>. Every generated tree has an order of at least
  1, so the exponent \<open>order - 1\<close> is not negative.\<close>

definition computeCoefficient :: "RootedTree \<Rightarrow> ButcherTableau \<Rightarrow> real" where
  "computeCoefficient t tableau =
     (let symmetry' = symmetryFactor t;
          coefficient' = fold (\<lambda>i acc. acc + bt_b tableau ! i * (bt_c tableau ! i) ^ (order t - 1))
                          [0..<length (bt_b tableau)] 0
      in coefficient' / real (symmetry' * order t))"

fun computeTreeDepth :: "RootedTree \<Rightarrow> nat" where
  "computeTreeDepth (RootedTree ord lab cs) =
     (if length cs = 0 then 1 else 1 + Math_max (map computeTreeDepth cs))"

definition computeTreeBalance :: "RootedTree \<Rightarrow> real" where
  "computeTreeBalance t =
     (if length (children t) = 0 then 1
      else let depths = map computeTreeDepth (children t);
               maxDepth = Math_max depths;
               minDepth = Math_min depths
           in real minDepth / real maxDepth)"

definition computeGrip :: "RootedTree \<Rightarrow> GripMetric \<Rightarrow> real" where
  "computeGrip t gripMetric =
     (let depthFactor = real (computeTreeDepth t) / real (order t);
          balanceFactor = computeTreeBalance t
      in (contact gripMetric * depthFactor
          + coverage gripMetric * balanceFactor
          + efficiency gripMetric * (1 / real (order t))
          + stability gripMetric * 0.8) / 4)"

definition generateExpansion :: "DomainSpecification \<Rightarrow> GripMetric \<Rightarrow> BSeriesExpansion" where
  "generateExpansion dspec gripMetric =
     (let trees' = generate (d_order dspec);
          tableau = getButcherTableau dspec;
          terms' = map (\<lambda>t. \<lparr>tree = t, coefficient = computeCoefficient t tableau,
                              e_grip = computeGrip t gripMetric, e_order = order t\<rparr>) trees'
      in \<lparr>domain = dspec, terms = terms', convergenceOrder = d_order dspec, grip = gripMetric\<rparr>)"

definition generateRungeKutta :: "nat \<Rightarrow> BSeriesExpansion" where
  "generateRungeKutta order' =
     generateExpansion
       \<lparr>d_type = computing, d_order = order', treeType = recursion,
        symmetry = ''time-reversible'', preserves = [''energy'', ''momentum'']\<rparr>
       \<lparr>contact = 1.0, coverage = 1.0, efficiency = 0.9, stability = 1.0, overall = 0.975\<rparr>"

text \<open>\<^verbatim>\<open>findCoefficient(tree, terms)\<close>: the coefficient of the first term whose tree has
  the label of \<open>tree\<close>, and 0 when there is none.\<close>

fun findCoefficient :: "RootedTree \<Rightarrow> ElementaryDifferential list \<Rightarrow> real" where
  "findCoefficient t [] = 0"
| "findCoefficient t (term # rest) =
     (if label (tree term) = label t then coefficient term else findCoefficient t rest)"

definition chainCompose :: "BSeriesExpansion \<Rightarrow> BSeriesExpansion \<Rightarrow> BSeriesExpansion" where
  "chainCompose f g =
     (let maxOrder = max (convergenceOrder f) (convergenceOrder g);
          trees' = generate maxOrder;
          terms' = map (\<lambda>t.
             let fCoeff = findCoefficient t (terms f);
                 gCoeff = findCoefficient t (terms g)
             in \<lparr>tree = t, coefficient = fCoeff * gCoeff,
                 e_grip = (overall (grip f) + overall (grip g)) / 2, e_order = order t\<rparr>) trees'
      in \<lparr>domain = domain f, terms = terms', convergenceOrder = maxOrder,
          grip = \<lparr>contact = (contact (grip f) + contact (grip g)) / 2,
                  coverage = (coverage (grip f) + coverage (grip g)) / 2,
                  efficiency = efficiency (grip f) * efficiency (grip g),
                  stability = min (stability (grip f)) (stability (grip g)),
                  overall = (overall (grip f) + overall (grip g)) / 2\<rparr>\<rparr>)"

definition productCompose :: "BSeriesExpansion \<Rightarrow> BSeriesExpansion \<Rightarrow> BSeriesExpansion" where
  "productCompose f g =
     (let maxOrder = max (convergenceOrder f) (convergenceOrder g);
          trees' = generate maxOrder;
          terms' = map (\<lambda>t.
             let fCoeff = findCoefficient t (terms f);
                 gCoeff = findCoefficient t (terms g)
             in \<lparr>tree = t, coefficient = fCoeff + gCoeff,
                 e_grip = max (overall (grip f)) (overall (grip g)), e_order = order t\<rparr>) trees'
      in \<lparr>domain = domain f, terms = terms', convergenceOrder = maxOrder,
          grip = \<lparr>contact = max (contact (grip f)) (contact (grip g)),
                  coverage = (coverage (grip f) + coverage (grip g)) / 2,
                  efficiency = (efficiency (grip f) + efficiency (grip g)) / 2,
                  stability = min (stability (grip f)) (stability (grip g)),
                  overall = (overall (grip f) + overall (grip g)) / 2\<rparr>\<rparr>)"

text \<open>\<^verbatim>\<open>verifyOrderConditions(expansion)\<close>: the loop over the orders returns false at the
  first order whose coefficient sum is further than the tolerance from \<open>1/p!\<close>, and true
  when it finds none. \<open>orderSum\<close> is the sum the loop forms at one order.\<close>

definition orderSum :: "BSeriesExpansion \<Rightarrow> nat \<Rightarrow> real" where
  "orderSum expansion order' =
     (let termsOfOrder = filter (\<lambda>t. e_order t = order') (terms expansion)
      in fold (\<lambda>t acc. acc + coefficient t) termsOfOrder 0)"

definition verifyOrderConditions :: "BSeriesExpansion \<Rightarrow> bool" where
  "verifyOrderConditions expansion =
     list_all (\<lambda>order'.
         let expected = 1 / real (factorial order');
             tolerance = 1 / 10 ^ 10
         in \<not> \<bar>orderSum expansion order' - expected\<bar> > tolerance)
       [1..<Suc (convergenceOrder expansion)]"

section \<open>Grip optimizer\<close>

definition vectorNorm :: "real list \<Rightarrow> real" where
  "vectorNorm v = sqrt (fold (\<lambda>x sum'. sum' + x * x) v 0)"

definition computeVariance :: "real list \<Rightarrow> real" where
  "computeVariance v =
     (let mean = fold (\<lambda>x sum'. sum' + x) v 0 / real (length v)
      in fold (\<lambda>x sum'. sum' + (x - mean) ^ 2) v 0 / real (length v))"

text \<open>\<^verbatim>\<open>getDomainWeights(domain)\<close>: the expected coefficient pattern of each domain type,
  one weight for each index below the order.\<close>

definition getDomainWeights :: "DomainSpecification \<Rightarrow> real list" where
  "getDomainWeights dspec =
     (let order' = d_order dspec in
      case d_type dspec of
        physics \<Rightarrow> map (\<lambda>i. (- 1) ^ i / (real i + 1)) [0..<order']
      | chemistry \<Rightarrow> map (\<lambda>i. exp (- real i / 2)) [0..<order']
      | biology \<Rightarrow> map (\<lambda>i. 1 / (1 + real i * real i)) [0..<order']
      | computing \<Rightarrow> map (\<lambda>i. 1 / 2 ^ i) [0..<order']
      | consciousness \<Rightarrow> map (\<lambda>i. sin (real i * pi / real order')) [0..<order'])"

definition computeContact :: "real list \<Rightarrow> DomainSpecification \<Rightarrow> real" where
  "computeContact coeffs dspec =
     (let domainWeights = getDomainWeights dspec;
          dotProduct = fold (\<lambda>i acc. acc + coeffs ! i * domainWeights ! i)
                         [0..<min (length coeffs) (length domainWeights)] 0;
          coeffNorm = vectorNorm coeffs;
          weightNorm = vectorNorm domainWeights
      in if coeffNorm = 0 \<or> weightNorm = 0 then 0
         else \<bar>dotProduct / (coeffNorm * weightNorm)\<bar>)"

definition computeCoverage :: "real list \<Rightarrow> real" where
  "computeCoverage coeffs =
     (let nonZero = length (filter (\<lambda>c. \<bar>c\<bar> > 1 / 10 ^ 10) coeffs)
      in real nonZero / real (length coeffs))"

definition computeEfficiency :: "real list \<Rightarrow> real" where
  "computeEfficiency coeffs =
     (let sparsity = real (length (filter (\<lambda>c. \<bar>c\<bar> < 1 / 10 ^ 10) coeffs)) / real (length coeffs);
          magnitude = vectorNorm coeffs
      in 0.5 * sparsity + 0.5 / (1 + magnitude))"

definition computeStability :: "real list \<Rightarrow> real" where
  "computeStability coeffs =
     (let maxCoeff = Math_max (map abs coeffs);
          variance' = computeVariance coeffs;
          boundedness = 1 / (1 + maxCoeff);
          smoothness = 1 / (1 + variance')
      in (boundedness + smoothness) / 2)"

definition measureGrip :: "real list \<Rightarrow> DomainSpecification \<Rightarrow> GripMetric" where
  "measureGrip coeffs dspec =
     (let contact' = computeContact coeffs dspec;
          coverage' = computeCoverage coeffs;
          efficiency' = computeEfficiency coeffs;
          stability' = computeStability coeffs;
          overall' = 0.3 * contact' + 0.3 * coverage' + 0.2 * efficiency' + 0.2 * stability'
      in \<lparr>contact = contact', coverage = coverage', efficiency = efficiency',
          stability = stability', overall = overall'\<rparr>)"

definition isSufficientGrip :: "GripMetric \<Rightarrow> real \<Rightarrow> bool" where
  "isSufficientGrip g threshold = (overall g \<ge> threshold)"

section \<open>Kernel generator\<close>

datatype OptimizationGoal = speed | accuracy | stability_goal | balanced

text \<open>Of a generation context the generator reads the domain and the optimization goal;
  the initial conditions and the constraints, which no embedded function reads, are left
  out of the record.\<close>

record GenerationContext =
  c_domain :: DomainSpecification
  optimizationGoal :: OptimizationGoal

text \<open>\<^verbatim>\<open>initializeGrip(context)\<close>: the table of goal metrics, and their mean as the
  overall value.\<close>

definition goalMetrics :: "OptimizationGoal \<Rightarrow> real \<times> real \<times> real \<times> real" where
  "goalMetrics goal =
     (case goal of
        speed \<Rightarrow> (0.6, 0.7, 1.0, 0.6)
      | accuracy \<Rightarrow> (1.0, 1.0, 0.5, 0.9)
      | stability_goal \<Rightarrow> (0.8, 0.8, 0.6, 1.0)
      | balanced \<Rightarrow> (0.8, 0.8, 0.8, 0.8))"

definition initializeGrip :: "GenerationContext \<Rightarrow> GripMetric" where
  "initializeGrip context =
     (case goalMetrics (optimizationGoal context) of (m_contact, m_coverage, m_efficiency, m_stability) \<Rightarrow>
        \<lparr>contact = m_contact, coverage = m_coverage, efficiency = m_efficiency,
         stability = m_stability,
         overall = (m_contact + m_coverage + m_efficiency + m_stability) / 4\<rparr>)"

section \<open>Kernels, genomes and the state of the engine\<close>

text \<open>
  A kernel object holds its B-series expansion by reference, and the engine writes through
  that reference (\<^verbatim>\<open>mutated.bSeries.grip = newGrip\<close>) after copying a kernel with
  the spread operator, which copies the reference and not the expansion. The expansions
  therefore live in a store, addressed by natural numbers, and a kernel holds an address.
  The other parts of a kernel are modelled as values. The wall-clock fields
  (\<^verbatim>\<open>generatedAt\<close>, \<^verbatim>\<open>timestamp\<close>) are left out.
\<close>

record Metadata =
  version :: string
  optimizationIterations :: nat

record GeneratedKernel =
  k_domain :: DomainSpecification
  k_order :: nat
  trees :: "RootedTree list"
  coefficients :: "real list"
  k_grip :: GripMetric
  bSeries :: nat
  metadata :: Metadata

datatype GeneType = operator_gene | coefficient_gene | symmetry_gene | preservation_gene

datatype GeneValue = NumberValue real | StringValue string

record KernelGene =
  g_type :: GeneType
  g_value :: GeneValue
  expressionStrength :: real
  mutable :: bool

record KernelGenome =
  g_id :: string
  generation :: nat
  lineage :: "string list"
  genes :: "KernelGene list"
  fitness :: real
  age :: nat

datatype DevelopmentStage = embryonic | juvenile | mature | senescent

record MutationRecord =
  geneIndex :: nat
  oldValue :: real
  newValue :: real
  impact :: real

datatype EventType = mutation_event | crossover_event | optimization_event | stage_transition

record DevelopmentEvent =
  ev_type :: EventType
  description :: string
  fitnessChange :: real

record OntogeneticState =
  stage :: DevelopmentStage
  maturity :: real
  reproductiveCapability :: real
  mutations :: "MutationRecord list"
  developmentHistory :: "DevelopmentEvent list"

record OntogeneticKernel = GeneratedKernel +
  genome :: KernelGenome
  ontogeneticState :: OntogeneticState

record KernelPopulation =
  p_generation :: nat
  individuals :: "OntogeneticKernel list"
  p_populationSize :: nat
  averageFitness :: real
  bestFitness :: real
  diversity :: real

record EvolutionParameters =
  populationSize :: nat
  mutationRate :: real
  crossoverRate :: real
  elitismRate :: real
  maxGenerations :: nat
  fitnessThreshold :: real
  diversityPressure :: real

record Scores =
  s_grip :: real
  s_stability :: real
  s_efficiency :: real
  s_novelty :: real
  s_symmetry :: real

record FitnessEvaluation =
  kernel :: OntogeneticKernel
  scores :: Scores
  f_overall :: real
  f_rank :: nat

datatype ReproductionMethod = crossover_method | mutation_method | cloning_method

record ReproductionResult =
  parents :: "OntogeneticKernel \<times> OntogeneticKernel"
  offspring :: "OntogeneticKernel list"
  r_method :: ReproductionMethod

datatype OperationType = self_generate | self_optimize | self_reproduce | self_mutate

record OntogeneticOperation =
  op_type :: OperationType
  op_input :: OntogeneticKernel
  op_output :: "OntogeneticKernel list"

datatype DifferentialOperator = chain | product | quotient

record 'k OperatorApplication =
  operator :: DifferentialOperator
  leftOperand :: 'k
  rightOperand :: 'k
  result :: GeneratedKernel

text \<open>
  The state that the functions of the engine share: the store of expansions with the next
  free address, the results of the successive calls of \<^verbatim>\<open>Math.random()\<close> (each in
  \<open>[0, 1)\<close>) with the number of calls made so far, the identifiers that the successive
  calls of \<^verbatim>\<open>generateId()\<close> return (built in the source from the clock and a random
  number of their own) with the number handed out so far, and the operation history.
\<close>

record World =
  bSeriesStore :: "nat \<Rightarrow> BSeriesExpansion"
  nextAddress :: nat
  randoms :: "nat \<Rightarrow> real"
  drawn :: nat
  idSource :: "nat \<Rightarrow> string"
  idsUsed :: nat
  operationHistory :: "OntogeneticOperation list"

definition Math_random :: "World \<Rightarrow> real \<times> World" where
  "Math_random w = (randoms w (drawn w), w\<lparr>drawn := Suc (drawn w)\<rparr>)"

definition generateId :: "World \<Rightarrow> string \<times> World" where
  "generateId w = (idSource w (idsUsed w), w\<lparr>idsUsed := Suc (idsUsed w)\<rparr>)"

text \<open>Creating an expansion object, and the assignment \<^verbatim>\<open>k.bSeries.grip = g\<close>.\<close>

definition newBSeries :: "BSeriesExpansion \<Rightarrow> World \<Rightarrow> nat \<times> World" where
  "newBSeries expansion w =
     (nextAddress w,
      w\<lparr>bSeriesStore := (bSeriesStore w)(nextAddress w := expansion),
        nextAddress := Suc (nextAddress w)\<rparr>)"

definition assignBSeriesGrip :: "nat \<Rightarrow> GripMetric \<Rightarrow> World \<Rightarrow> World" where
  "assignBSeriesGrip address g w =
     w\<lparr>bSeriesStore := (bSeriesStore w)(address := (bSeriesStore w address)\<lparr>grip := g\<rparr>)\<rparr>"

definition VERSION :: string where
  "VERSION = ''1.0.0''"

subsection \<open>Differential operators on kernels\<close>

definition kernelChainCompose ::
  "'a GeneratedKernel_scheme \<Rightarrow> 'b GeneratedKernel_scheme \<Rightarrow> World \<Rightarrow> GeneratedKernel \<times> World" where
  "kernelChainCompose f g w =
     (let composed = chainCompose (bSeriesStore w (bSeries f)) (bSeriesStore w (bSeries g));
          (address, w') = newBSeries composed w
      in (\<lparr>k_domain = k_domain f, k_order = max (k_order f) (k_order g),
           trees = map tree (terms composed), coefficients = map coefficient (terms composed),
           k_grip = grip composed, bSeries = address,
           metadata = \<lparr>version = VERSION, optimizationIterations = 0\<rparr>\<rparr>, w'))"

definition kernelProductCompose ::
  "'a GeneratedKernel_scheme \<Rightarrow> 'b GeneratedKernel_scheme \<Rightarrow> World \<Rightarrow> GeneratedKernel \<times> World" where
  "kernelProductCompose f g w =
     (let composed = productCompose (bSeriesStore w (bSeries f)) (bSeriesStore w (bSeries g));
          (address, w') = newBSeries composed w
      in (\<lparr>k_domain = k_domain f, k_order = max (k_order f) (k_order g),
           trees = map tree (terms composed), coefficients = map coefficient (terms composed),
           k_grip = grip composed, bSeries = address,
           metadata = \<lparr>version = VERSION, optimizationIterations = 0\<rparr>\<rparr>, w'))"

text \<open>\<^verbatim>\<open>quotientCompose(f, g)\<close>: the coefficients are combined by position, a missing
  coefficient counting as 0.\<close>

definition quotientCompose ::
  "'a GeneratedKernel_scheme \<Rightarrow> 'b GeneratedKernel_scheme \<Rightarrow> World \<Rightarrow> GeneratedKernel \<times> World" where
  "quotientCompose f g w =
     (let maxOrder = max (k_order f) (k_order g);
          trees' = generate maxOrder;
          coefficients' = map (\<lambda>i.
             let fCoeff = (if i < length (coefficients f) then coefficients f ! i else 0);
                 gCoeff = (if i < length (coefficients g) then coefficients g ! i else 0)
             in (fCoeff - gCoeff) / (1 + \<bar>gCoeff\<bar>)) [0..<length trees'];
          grip' = \<lparr>contact = (contact (k_grip f) + contact (k_grip g)) / 2,
                   coverage = min (coverage (k_grip f)) (coverage (k_grip g)),
                   efficiency = efficiency (k_grip f) * efficiency (k_grip g),
                   stability = min (stability (k_grip f)) (stability (k_grip g)) * 0.9,
                   overall = (overall (k_grip f) + overall (k_grip g)) / 2.2\<rparr>;
          (address, w') = newBSeries
             \<lparr>domain = k_domain f,
              terms = map (\<lambda>i. \<lparr>tree = trees' ! i, coefficient = coefficients' ! i,
                                 e_grip = overall grip', e_order = order (trees' ! i)\<rparr>)
                        [0..<length trees'],
              convergenceOrder = maxOrder, grip = grip'\<rparr> w
      in (\<lparr>k_domain = k_domain f, k_order = maxOrder, trees = trees',
           coefficients = coefficients', k_grip = grip', bSeries = address,
           metadata = \<lparr>version = VERSION, optimizationIterations = 0\<rparr>\<rparr>, w'))"

text \<open>\<^verbatim>\<open>applyOperator(operator, left, right)\<close>. The type of the operator has the three
  values of the switch, so its default branch is never taken.\<close>

definition applyOperator ::
  "DifferentialOperator \<Rightarrow> 'a GeneratedKernel_scheme \<Rightarrow> 'a GeneratedKernel_scheme \<Rightarrow> World
     \<Rightarrow> ('a GeneratedKernel_scheme) OperatorApplication \<times> World" where
  "applyOperator operator' left right w =
     (let (result', w') =
            (case operator' of
               chain \<Rightarrow> kernelChainCompose left right w
             | product \<Rightarrow> kernelProductCompose left right w
             | quotient \<Rightarrow> quotientCompose left right w)
      in (\<lparr>operator = operator', leftOperand = left, rightOperand = right, result = result'\<rparr>, w'))"

section \<open>Ontogenesis engine\<close>

definition createInitialState :: OntogeneticState where
  "createInitialState =
     \<lparr>stage = embryonic, maturity = 0.0, reproductiveCapability = 0.0,
      mutations = [], developmentHistory = []\<rparr>"

definition extractGenome :: "'a GeneratedKernel_scheme \<Rightarrow> World \<Rightarrow> KernelGenome \<times> World" where
  "extractGenome k w =
     (let genes' =
            map (\<lambda>coeff. \<lparr>g_type = coefficient_gene, g_value = NumberValue coeff,
                           expressionStrength = 1.0, mutable = True\<rparr>) (coefficients k)
            @ [\<lparr>g_type = symmetry_gene, g_value = StringValue (symmetry (k_domain k)),
                expressionStrength = 0.8, mutable = False\<rparr>]
            @ map (\<lambda>p. \<lparr>g_type = preservation_gene, g_value = StringValue p,
                          expressionStrength = 0.9, mutable = False\<rparr>) (preserves (k_domain k));
          (id', w') = generateId w
      in (\<lparr>g_id = id', generation = 0, lineage = [], genes = genes',
           fitness = overall (k_grip k), age = 0\<rparr>, w'))"

text \<open>\<^verbatim>\<open>initialize(kernel)\<close>: the spread copies the seven fields of the kernel, the
  address of its expansion among them.\<close>

definition initialize :: "GeneratedKernel \<Rightarrow> World \<Rightarrow> OntogeneticKernel \<times> World" where
  "initialize k w =
     (let (genome', w') = extractGenome k w;
          state = createInitialState
      in (\<lparr>k_domain = k_domain k, k_order = k_order k, trees = trees k,
           coefficients = coefficients k, k_grip = k_grip k, bSeries = bSeries k,
           metadata = metadata k, genome = genome', ontogeneticState = state\<rparr>, w'))"

definition selectOperator :: "OntogeneticKernel \<Rightarrow> DifferentialOperator" where
  "selectOperator k =
     (let maturity' = maturity (ontogeneticState k)
      in if maturity' < 0.5 then chain
         else if maturity' < 0.8 then product
         else quotient)"

definition recordOperation :: "OntogeneticOperation \<Rightarrow> World \<Rightarrow> World" where
  "recordOperation operation w =
     (let history = operationHistory w @ [operation]
      in w\<lparr>operationHistory := (if length history > 1000 then tl history else history)\<rparr>)"

definition selfGenerate :: "OntogeneticKernel \<Rightarrow> World \<Rightarrow> OntogeneticKernel \<times> World" where
  "selfGenerate parent w =
     (let operation = selectOperator parent;
          (composed, w1) = applyOperator operation parent parent w;
          (initialized, w2) = initialize (result composed) w1;
          offspring' = initialized\<lparr>genome := (genome initialized)
                         \<lparr>generation := generation (genome parent) + 1,
                          lineage := [g_id (genome parent)]\<rparr>\<rparr>;
          w3 = recordOperation
                 \<lparr>op_type = self_generate, op_input = parent, op_output = [offspring']\<rparr> w2
      in (offspring', w3))"

text \<open>The variance of the engine, and its grip recalculation.\<close>

definition variance :: "real list \<Rightarrow> real" where
  "variance values' =
     (let mean = fold (\<lambda>b a. a + b) values' 0 / real (length values');
          squaredDiffs = map (\<lambda>v. (v - mean) ^ 2) values'
      in fold (\<lambda>b a. a + b) squaredDiffs 0 / real (length values'))"

definition recalculateGrip :: "OntogeneticKernel \<Rightarrow> GripMetric" where
  "recalculateGrip k =
     (let coeffSum = fold (\<lambda>b a. a + \<bar>b\<bar>) (coefficients k) 0;
          coeffVariance = variance (coefficients k);
          contact' = min 1.0 (coeffSum / real (length (coefficients k)));
          coverage' = min 1.0 (1.0 / (1.0 + coeffVariance));
          efficiency' = efficiency (k_grip k) * 0.95;
          stability' = min 1.0 (1.0 - coeffVariance / 10);
          overall' = (contact' + coverage' + efficiency' + stability') / 4
      in \<lparr>contact = contact', coverage = coverage', efficiency = efficiency',
          stability = stability', overall = overall'\<rparr>)"

definition mergeGenes :: "KernelGene list \<Rightarrow> KernelGene list \<Rightarrow> KernelGene list" where
  "mergeGenes genes1 genes2 =
     map (\<lambda>i.
        if i < length genes1 \<and> i < length genes2 then
          (genes1 ! i)\<lparr>expressionStrength :=
             (expressionStrength (genes1 ! i) + expressionStrength (genes2 ! i)) / 2\<rparr>
        else if i < length genes1 then genes1 ! i
        else genes2 ! i)
       [0..<max (length genes1) (length genes2)]"

text \<open>\<^verbatim>\<open>createOffspring(parent1, parent2, coefficients)\<close>. The offspring is a spread of
  the first parent, so it holds the address of that parent's expansion, and the last
  assignment writes the new grip into that expansion.\<close>

definition createOffspring ::
  "OntogeneticKernel \<Rightarrow> OntogeneticKernel \<Rightarrow> real list \<Rightarrow> World \<Rightarrow> OntogeneticKernel \<times> World" where
  "createOffspring parent1 parent2 coefficients' w =
     (let (id', w1) = generateId w;
          offspring0 = parent1
            \<lparr>coefficients := coefficients',
             genome := \<lparr>g_id = id',
                        generation = max (generation (genome parent1)) (generation (genome parent2)) + 1,
                        lineage = [g_id (genome parent1), g_id (genome parent2)],
                        genes = mergeGenes (genes (genome parent1)) (genes (genome parent2)),
                        fitness = 0, age = 0\<rparr>,
             ontogeneticState := createInitialState\<rparr>;
          offspring1 = offspring0\<lparr>k_grip := recalculateGrip offspring0\<rparr>;
          w2 = assignBSeriesGrip (bSeries offspring1) (k_grip offspring1) w1
      in (offspring1, w2))"

definition crossover ::
  "OntogeneticKernel \<Rightarrow> OntogeneticKernel \<Rightarrow> World \<Rightarrow> OntogeneticKernel list \<times> World" where
  "crossover parent1 parent2 w =
     (let (r, w1) = Math_random w;
          point = nat \<lfloor>r * real (length (coefficients parent1))\<rfloor>;
          offspring1Coeffs = take point (coefficients parent1) @ drop point (coefficients parent2);
          offspring2Coeffs = take point (coefficients parent2) @ drop point (coefficients parent1);
          (offspring1, w2) = createOffspring parent1 parent2 offspring1Coeffs w1;
          (offspring2, w3) = createOffspring parent1 parent2 offspring2Coeffs w2
      in ([offspring1, offspring2], w3))"

text \<open>A read past the end of a number array gives \<^verbatim>\<open>undefined\<close>, which arithmetic
  turns into NaN, and a write past the end extends the array; \<^typ>\<open>real\<close> has no such
  number, and the model has an unspecified one in its place.\<close>

definition NaN :: real where
  "NaN = undefined"

definition readNumber :: "real list \<Rightarrow> nat \<Rightarrow> real" where
  "readNumber xs i = (if i < length xs then xs ! i else NaN)"

definition writeNumber :: "real list \<Rightarrow> nat \<Rightarrow> real \<Rightarrow> real list" where
  "writeNumber xs i v =
     (if i < length xs then xs[i := v] else xs @ replicate (i - length xs) NaN @ [v])"

text \<open>\<^verbatim>\<open>mutate(kernel)\<close>. The coefficient array and the ontogenetic state of the result
  are fresh; the expansion is the one of \<open>kernel\<close>, and receives the new grip.\<close>

definition mutate :: "OntogeneticKernel \<Rightarrow> World \<Rightarrow> OntogeneticKernel \<times> World" where
  "mutate k w =
     (let (r1, w1) = Math_random w;
          idx = nat \<lfloor>r1 * real (length (coefficients k))\<rfloor>;
          oldValue' = readNumber (coefficients k) idx;
          (r2, w2) = Math_random w1;
          mutation = (r2 - 0.5) * 0.2;
          coefficients' = writeNumber (coefficients k) idx (oldValue' + mutation);
          record' = \<lparr>geneIndex = idx, oldValue = oldValue',
                     newValue = readNumber coefficients' idx, impact = mutation\<rparr>;
          mutated0 = k\<lparr>coefficients := coefficients',
                       ontogeneticState := (ontogeneticState k)
                          \<lparr>mutations := mutations (ontogeneticState k) @ [record']\<rparr>\<rparr>;
          newGrip = recalculateGrip mutated0;
          mutated1 = mutated0\<lparr>k_grip := newGrip\<rparr>;
          w3 = assignBSeriesGrip (bSeries mutated1) newGrip w2
      in (mutated1, w3))"

definition clone :: "OntogeneticKernel \<Rightarrow> World \<Rightarrow> OntogeneticKernel \<times> World" where
  "clone k w =
     (let (id', w1) = generateId w
      in (k\<lparr>genome := (genome k)\<lparr>g_id := id',
                                 generation := generation (genome k) + 1,
                                 lineage := [g_id (genome k)],
                                 age := 0\<rparr>,
            ontogeneticState := createInitialState\<rparr>, w1))"

definition selfReproduce ::
  "OntogeneticKernel \<Rightarrow> OntogeneticKernel \<Rightarrow> ReproductionMethod \<Rightarrow> World
     \<Rightarrow> ReproductionResult \<times> World" where
  "selfReproduce parent1 parent2 method' w =
     (let (offspring', w') =
            (case method' of
               crossover_method \<Rightarrow> crossover parent1 parent2 w
             | mutation_method \<Rightarrow>
                 (let (m1, w1) = mutate parent1 w;
                      (m2, w2) = mutate parent2 w1
                  in ([m1, m2], w2))
             | cloning_method \<Rightarrow>
                 (let (c, w1) = clone parent1 w in ([c], w1)))
      in (\<lparr>parents = (parent1, parent2), offspring = offspring', r_method = method'\<rparr>, w'))"

subsection \<open>Fitness and selection\<close>

definition calculateFitness :: "OntogeneticKernel \<Rightarrow> Scores option \<Rightarrow> real" where
  "calculateFitness k scores' =
     (let sc = (case scores' of
                  None \<Rightarrow> \<lparr>s_grip = overall (k_grip k), s_stability = stability (k_grip k),
                            s_efficiency = efficiency (k_grip k), s_novelty = 0.5,
                            s_symmetry = 0.5\<rparr>
                | Some given \<Rightarrow> given)
      in s_grip sc * 0.4 + s_stability sc * 0.2 + s_efficiency sc * 0.2
         + s_novelty sc * 0.1 + s_symmetry sc * 0.1)"

text \<open>\<^verbatim>\<open>geneticDistance(k1, k2)\<close>: a coefficient that the second kernel lacks counts
  as 0.\<close>

definition geneticDistance :: "OntogeneticKernel \<Rightarrow> OntogeneticKernel \<Rightarrow> real" where
  "geneticDistance k1 k2 =
     (let coeffDiff = map (\<lambda>i. \<bar>coefficients k1 ! i
                 - (if i < length (coefficients k2) then coefficients k2 ! i else 0)\<bar>)
               [0..<length (coefficients k1)]
      in fold (\<lambda>b a. a + b) coeffDiff 0 / real (length coeffDiff))"

definition calculateNovelty :: "OntogeneticKernel \<Rightarrow> OntogeneticKernel list \<Rightarrow> real" where
  "calculateNovelty k population =
     (let distances = map (\<lambda>other. geneticDistance k other)
                        (filter (\<lambda>other. g_id (genome other) \<noteq> g_id (genome k)) population)
      in if length distances = 0 then 1.0
         else min 1.0 (fold (\<lambda>b a. a + b) distances 0 / real (length distances)))"

definition evaluateSymmetry :: "OntogeneticKernel \<Rightarrow> real" where
  "evaluateSymmetry k =
     (case find (\<lambda>g. g_type g = symmetry_gene) (genes (genome k)) of
        None \<Rightarrow> 0.5
      | Some symmetryGene \<Rightarrow> expressionStrength symmetryGene)"

definition evaluateFitness :: "OntogeneticKernel list \<Rightarrow> FitnessEvaluation list" where
  "evaluateFitness kernels =
     map (\<lambda>rank'.
        let k = kernels ! rank';
            scores' = \<lparr>s_grip = overall (k_grip k), s_stability = stability (k_grip k),
                       s_efficiency = efficiency (k_grip k),
                       s_novelty = calculateNovelty k kernels,
                       s_symmetry = evaluateSymmetry k\<rparr>
        in \<lparr>kernel = k, scores = scores',
            f_overall = calculateFitness k (Some scores'), f_rank = rank'\<rparr>)
       [0..<length kernels]"

text \<open>Reading a property of \<^verbatim>\<open>undefined\<close> throws.\<close>

datatype error = TypeError

text \<open>\<^verbatim>\<open>tournamentSelect(evaluations, tournamentSize)\<close>. An index outside the array
  gives \<^verbatim>\<open>undefined\<close>, and the comparison of the reduction then throws.\<close>

fun drawTournament ::
  "FitnessEvaluation list \<Rightarrow> nat \<Rightarrow> World \<Rightarrow> FitnessEvaluation option list \<times> World" where
  "drawTournament evaluations 0 w = ([], w)"
| "drawTournament evaluations (Suc n) w =
     (let (r, w1) = Math_random w;
          idx = \<lfloor>r * real (length evaluations)\<rfloor>;
          entry = (if 0 \<le> idx \<and> idx < int (length evaluations)
                   then Some (evaluations ! nat idx) else None);
          (rest, w2) = drawTournament evaluations n w1
      in (entry # rest, w2))"

definition tournamentSelect ::
  "FitnessEvaluation list \<Rightarrow> nat \<Rightarrow> World \<Rightarrow> (error + FitnessEvaluation) \<times> World" where
  "tournamentSelect evaluations tournamentSize w =
     (let (tournament, w') = drawTournament evaluations tournamentSize w
      in case those tournament of
           None \<Rightarrow> (Inl TypeError, w')
         | Some [] \<Rightarrow> (Inl TypeError, w')
         | Some (first # rest) \<Rightarrow>
             (Inr (fold (\<lambda>curr best. if f_overall curr > f_overall best then curr else best)
                     rest first), w'))"

subsection \<open>Development\<close>

definition stageName :: "DevelopmentStage \<Rightarrow> string" where
  "stageName s =
     (case s of embryonic \<Rightarrow> ''embryonic'' | juvenile \<Rightarrow> ''juvenile''
      | mature \<Rightarrow> ''mature'' | senescent \<Rightarrow> ''senescent'')"

text \<open>\<^verbatim>\<open>updateDevelopmentStage(kernel)\<close> changes the kernel in place; the model returns
  the kernel after the call.\<close>

definition updateDevelopmentStage :: "OntogeneticKernel \<Rightarrow> OntogeneticKernel" where
  "updateDevelopmentStage k =
     (let age' = age (genome k) + 1;
          maturity' = maturity (ontogeneticState k);
          state = ontogeneticState k;
          (newStage, state1) =
            (if maturity' \<ge> 0.8 \<and> age' \<ge> 5 then
               (mature, state\<lparr>reproductiveCapability := 1.0\<rparr>)
             else if maturity' \<ge> 0.5 \<and> age' \<ge> 3 then
               (juvenile, state\<lparr>reproductiveCapability := 0.5\<rparr>)
             else if age' \<ge> 20 then
               (senescent, state\<lparr>reproductiveCapability := 0.2\<rparr>)
             else (stage state, state));
          state2 =
            (if newStage \<noteq> stage state then
               state1\<lparr>stage := newStage,
                      developmentHistory := developmentHistory state1 @
                        [\<lparr>ev_type = stage_transition,
                          description = ''Transitioned to '' @ stageName newStage,
                          fitnessChange = 0\<rparr>]\<rparr>
             else state1)
      in k\<lparr>genome := (genome k)\<lparr>age := age'\<rparr>, ontogeneticState := state2\<rparr>)"

definition calculateDiversity :: "OntogeneticKernel list \<Rightarrow> real" where
  "calculateDiversity population =
     (if length population < 2 then 0
      else let pairs = concat (map (\<lambda>i. map (\<lambda>j. (i, j)) [i + 1..<length population])
                                 [0..<length population]);
               totalDistance = fold (\<lambda>(i, j) total.
                    total + geneticDistance (population ! i) (population ! j)) pairs 0;
               comparisons = length pairs
           in if comparisons > 0 then totalDistance / real comparisons else 0)"

subsection \<open>Evolution\<close>

text \<open>\<^verbatim>\<open>xs.slice(start, end)\<close>, a negative bound counting from the end of the array.\<close>

definition slice :: "'a list \<Rightarrow> int \<Rightarrow> int \<Rightarrow> 'a list" where
  "slice xs start end' =
     (let len = int (length xs);
          from = (if start < 0 then max (len + start) 0 else min start len);
          to = (if end' < 0 then max (len + end') 0 else min end' len)
      in take (nat (to - from)) (drop (nat from) xs))"

text \<open>One turn of the loop of \<^verbatim>\<open>evolve\<close> that fills the offspring array: two
  tournaments, then a crossover (both offspring are appended) or a clone of the first
  parent, then with the mutation rate a mutation of the offspring appended last.\<close>

definition evolveStep ::
  "FitnessEvaluation list \<Rightarrow> EvolutionParameters \<Rightarrow> OntogeneticKernel list \<Rightarrow> World
     \<Rightarrow> (error + OntogeneticKernel list) \<times> World" where
  "evolveStep sorted' params offspring0 w =
     (case tournamentSelect sorted' 3 w of
        (Inl e, w1) \<Rightarrow> (Inl e, w1)
      | (Inr parent1, w1) \<Rightarrow>
     (case tournamentSelect sorted' 3 w1 of
        (Inl e, w2) \<Rightarrow> (Inl e, w2)
      | (Inr parent2, w2) \<Rightarrow>
     (let (r1, w3) = Math_random w2;
          (offspring1, w4) =
            (if r1 < crossoverRate params then
               (let (result', w') = selfReproduce (kernel parent1) (kernel parent2) crossover_method w3
                in (offspring0 @ offspring result', w'))
             else
               (let (c, w') = clone (kernel parent1) w3 in (offspring0 @ [c], w')));
          (r2, w5) = Math_random w4
      in if r2 < mutationRate params then
           (let last' = offspring1 ! (length offspring1 - 1);
                (m, w6) = mutate last' w5
            in (Inr (offspring1[length offspring1 - 1 := m]), w6))
         else (Inr offspring1, w5))))"

lemma crossover_length: "crossover p1 p2 w = (xs, w') \<Longrightarrow> length xs = 2"
  by (auto simp: crossover_def Let_def split: prod.splits)

lemma evolveStep_grows:
  "evolveStep s params off w = (Inr off', w') \<Longrightarrow> length off < length off'"
  by (auto simp: evolveStep_def selfReproduce_def Let_def dest!: crossover_length
        split: prod.splits sum.splits if_splits)

text \<open>The loop \<^verbatim>\<open>while (offspring.length < params.populationSize - eliteCount)\<close>. Every
  turn appends at least one offspring, so the loop ends.\<close>

function evolveLoop ::
  "FitnessEvaluation list \<Rightarrow> EvolutionParameters \<Rightarrow> int \<Rightarrow> OntogeneticKernel list \<Rightarrow> World
     \<Rightarrow> (error + OntogeneticKernel list) \<times> World" where
  "evolveLoop sorted' params eliteCount offspring0 w =
     (if int (length offspring0) < int (populationSize params) - eliteCount then
        (case evolveStep sorted' params offspring0 w of
           (Inl e, w') \<Rightarrow> (Inl e, w')
         | (Inr offspring1, w') \<Rightarrow> evolveLoop sorted' params eliteCount offspring1 w')
      else (Inr offspring0, w))"
  by pat_completeness auto
termination
proof (relation "measure (\<lambda>(s, params, eliteCount, off, w).
          nat (int (populationSize params) - eliteCount - int (length off)))", goal_cases)
  case 1
  show ?case by simp
next
  case (2 sorted' params eliteCount offspring0 w x y offspring1)
  then show ?case
    using evolveStep_grows [of sorted' params offspring0 w offspring1 y] by auto
qed

declare evolveLoop.simps [simp del]

text \<open>\<^verbatim>\<open>evolve(population, params)\<close>. The evaluations are sorted by descending fitness
  (the sort of an array is stable); the first \<open>eliteCount\<close> of them are the elite; the loop
  makes the offspring; elite and offspring together are cut to the population size. The
  source then updates each kernel of the next generation in place; the model maps the
  update over the list, which is the same as long as no two of those kernels share their
  genome or state object (kernels that do are aged once for each of them in the source).
  The product of the population size and the elitism rate is taken over the reals; the
  double product of the source is that number rounded, which differs in its floor only
  where the rounding reaches the next integer.\<close>

definition evolve ::
  "KernelPopulation \<Rightarrow> EvolutionParameters \<Rightarrow> World \<Rightarrow> (error + KernelPopulation) \<times> World" where
  "evolve population params w =
     (let evaluations = evaluateFitness (individuals population);
          sorted' = sort_key (\<lambda>e. - f_overall e) evaluations;
          eliteCount = \<lfloor>real (populationSize params) * elitismRate params\<rfloor>;
          elite = map kernel (slice sorted' 0 eliteCount)
      in case evolveLoop sorted' params eliteCount [] w of
           (Inl e, w') \<Rightarrow> (Inl e, w')
         | (Inr offspring', w') \<Rightarrow>
             (let nextGeneration =
                    map updateDevelopmentStage
                      (slice (elite @ offspring') 0 (int (populationSize params)));
                  fitness' = map (\<lambda>k. calculateFitness k None) nextGeneration;
                  avgFitness = fold (\<lambda>b a. a + b) fitness' 0 / real (length fitness');
                  bestFitness' = Math_max fitness';
                  diversity' = calculateDiversity nextGeneration
              in (Inr \<lparr>p_generation = p_generation population + 1,
                       individuals = nextGeneration,
                       p_populationSize = length nextGeneration,
                       averageFitness = avgFitness,
                       bestFitness = bestFitness',
                       diversity = diversity'\<rparr>, w')))"

section \<open>Concrete inputs\<close>

text \<open>The inputs at which the statements below are evaluated: an order-3 kernel of the
  consciousness domain with two coefficients, a second kernel with an expansion of its own,
  the first kernel late in its life, and a state of the engine that holds the two expansions
  at the addresses 0 and 1 and in which every call of \<^verbatim>\<open>Math.random()\<close> returns 1/4.\<close>

definition sampleDomain :: DomainSpecification where
  "sampleDomain =
     \<lparr>d_type = consciousness, d_order = 3, treeType = echo,
      symmetry = ''self-reference'', preserves = [''identity'']\<rparr>"

definition sampleGrip :: GripMetric where
  "sampleGrip =
     \<lparr>contact = 0.8, coverage = 0.8, efficiency = 0.8, stability = 0.8, overall = 0.8\<rparr>"

definition sampleExpansion :: BSeriesExpansion where
  "sampleExpansion =
     \<lparr>domain = sampleDomain,
      terms = [\<lparr>tree = tree3_bushy, coefficient = 1 / 4, e_grip = 0.8, e_order = 3\<rparr>,
               \<lparr>tree = tree3_tall, coefficient = 1, e_grip = 0.8, e_order = 3\<rparr>],
      convergenceOrder = 3, grip = sampleGrip\<rparr>"

definition sampleGenome :: KernelGenome where
  "sampleGenome =
     \<lparr>g_id = ''seed'', generation = 0, lineage = [],
      genes = [\<lparr>g_type = coefficient_gene, g_value = NumberValue (1 / 4),
                expressionStrength = 1.0, mutable = True\<rparr>,
               \<lparr>g_type = coefficient_gene, g_value = NumberValue 1,
                expressionStrength = 1.0, mutable = True\<rparr>,
               \<lparr>g_type = symmetry_gene, g_value = StringValue ''self-reference'',
                expressionStrength = 0.8, mutable = False\<rparr>,
               \<lparr>g_type = preservation_gene, g_value = StringValue ''identity'',
                expressionStrength = 0.9, mutable = False\<rparr>],
      fitness = 0.8, age = 0\<rparr>"

definition sampleKernel :: OntogeneticKernel where
  "sampleKernel =
     \<lparr>k_domain = sampleDomain, k_order = 3, trees = [tree3_bushy, tree3_tall],
      coefficients = [1 / 4, 1], k_grip = sampleGrip, bSeries = 0,
      metadata = \<lparr>version = ''1.0.0'', optimizationIterations = 0\<rparr>,
      genome = sampleGenome, ontogeneticState = createInitialState\<rparr>"

definition secondExpansion :: BSeriesExpansion where
  "secondExpansion =
     \<lparr>domain = sampleDomain,
      terms = [\<lparr>tree = tree3_bushy, coefficient = 1 / 2, e_grip = 0.8, e_order = 3\<rparr>,
               \<lparr>tree = tree3_tall, coefficient = 3 / 4, e_grip = 0.8, e_order = 3\<rparr>],
      convergenceOrder = 3, grip = sampleGrip\<rparr>"

definition secondGenome :: KernelGenome where
  "secondGenome =
     \<lparr>g_id = ''mate'', generation = 0, lineage = [],
      genes = [\<lparr>g_type = coefficient_gene, g_value = NumberValue (1 / 2),
                expressionStrength = 1.0, mutable = True\<rparr>,
               \<lparr>g_type = coefficient_gene, g_value = NumberValue (3 / 4),
                expressionStrength = 1.0, mutable = True\<rparr>,
               \<lparr>g_type = symmetry_gene, g_value = StringValue ''self-reference'',
                expressionStrength = 0.8, mutable = False\<rparr>,
               \<lparr>g_type = preservation_gene, g_value = StringValue ''identity'',
                expressionStrength = 0.9, mutable = False\<rparr>],
      fitness = 0.8, age = 0\<rparr>"

definition secondKernel :: OntogeneticKernel where
  "secondKernel =
     \<lparr>k_domain = sampleDomain, k_order = 3, trees = [tree3_bushy, tree3_tall],
      coefficients = [1 / 2, 3 / 4], k_grip = sampleGrip, bSeries = 1,
      metadata = \<lparr>version = ''1.0.0'', optimizationIterations = 0\<rparr>,
      genome = secondGenome, ontogeneticState = createInitialState\<rparr>"

definition matureKernel :: OntogeneticKernel where
  "matureKernel =
     sampleKernel\<lparr>genome := sampleGenome\<lparr>age := 19\<rparr>,
                  ontogeneticState := createInitialState
                    \<lparr>stage := mature, maturity := 0.9, reproductiveCapability := 1.0\<rparr>\<rparr>"

definition senescentKernel :: OntogeneticKernel where
  "senescentKernel =
     sampleKernel\<lparr>genome := sampleGenome\<lparr>age := 20\<rparr>,
                  ontogeneticState := createInitialState
                    \<lparr>stage := senescent, maturity := 0.6, reproductiveCapability := 0.2\<rparr>\<rparr>"

definition sampleWorld :: World where
  "sampleWorld =
     \<lparr>bSeriesStore = (\<lambda>address. if address = 1 then secondExpansion else sampleExpansion),
      nextAddress = 2,
      randoms = (\<lambda>n. 1 / 4), drawn = 0,
      idSource = (\<lambda>n. replicate (Suc n) CHR ''k''), idsUsed = 0,
      operationHistory = []\<rparr>"

definition samplePopulation :: KernelPopulation where
  "samplePopulation =
     \<lparr>p_generation = 0, individuals = [sampleKernel], p_populationSize = 1,
      averageFitness = 0.8, bestFitness = 0.8, diversity = 0\<rparr>"

definition sampleParams :: EvolutionParameters where
  "sampleParams =
     \<lparr>populationSize = 4, mutationRate = 0, crossoverRate = 0, elitismRate = 0.5,
      maxGenerations = 1, fitnessThreshold = 1, diversityPressure = 0\<rparr>"

definition speedContext :: GenerationContext where
  "speedContext = \<lparr>c_domain = sampleDomain, optimizationGoal = speed\<rparr>"

section \<open>Facts used by several statements\<close>

lemmas sample_defs = sampleWorld_def sampleKernel_def secondKernel_def sampleGenome_def
  secondGenome_def createInitialState_def sampleExpansion_def secondExpansion_def
  sampleGrip_def sampleDomain_def

lemma terms_orders:
  "map e_order (terms (generateExpansion d g)) = map order (generate (d_order d))"
  by (simp add: generateExpansion_def Let_def comp_def)

lemma generate4_orders: "map order (generate 4) = [4, 4, 4, 4, 4]"
  by (simp add: generate.simps catalogue4_def)

lemma filter_none: "\<forall>x \<in> set xs. \<not> P x \<Longrightarrow> filter P xs = []"
  by (induction xs) auto

lemma rungeKutta4_no_order1:
  "filter (\<lambda>t. e_order t = 1) (terms (generateRungeKutta 4)) = []"
proof -
  have "map e_order (terms (generateRungeKutta 4)) = [4, 4, 4, 4, 4]"
    unfolding generateRungeKutta_def terms_orders by (simp add: generate4_orders)
  then have "set (map e_order (terms (generateRungeKutta 4))) = {4}"
    by simp
  then have "\<forall>t \<in> set (terms (generateRungeKutta 4)). e_order t = 4"
    by auto
  then show ?thesis
    by (intro filter_none) auto
qed

lemma map_const_zero: "map (\<lambda>i. 0 :: real) [0..<n] = replicate n 0"
  by (induction n) (simp_all add: replicate_append_same)

lemma quotientCompose_self:
  "coefficients (fst (quotientCompose k k w)) = replicate (length (generate (k_order k))) 0"
  by (simp add: quotientCompose_def Let_def map_const_zero split: prod.splits)

lemma random_index:
  assumes "xs \<noteq> []" and "0 \<le> r" and "r < 1"
  shows "nat \<lfloor>r * real (length xs)\<rfloor> < length xs"
proof -
  from assms(1) have pos: "0 < real (length xs)"
    by simp
  with assms(3) have "r * real (length xs) < real (length xs)"
    by simp
  then have "\<lfloor>r * real (length xs)\<rfloor> < int (length xs)"
    by (simp add: floor_less_iff)
  moreover from assms(2) have "0 \<le> \<lfloor>r * real (length xs)\<rfloor>"
    by simp
  ultimately show ?thesis
    by linarith
qed

lemma mutate_result:
  assumes "coefficients k \<noteq> []"
    and "0 \<le> randoms w (drawn w)" and "randoms w (drawn w) < 1"
  shows "coefficients (fst (mutate k w))
           = (coefficients k)[nat \<lfloor>randoms w (drawn w) * real (length (coefficients k))\<rfloor>
                := coefficients k ! nat \<lfloor>randoms w (drawn w) * real (length (coefficients k))\<rfloor>
                   + (randoms w (Suc (drawn w)) - 0.5) * 0.2]"
    and "mutations (ontogeneticState (fst (mutate k w)))
           = mutations (ontogeneticState k) @
             [\<lparr>geneIndex = nat \<lfloor>randoms w (drawn w) * real (length (coefficients k))\<rfloor>,
               oldValue = coefficients k ! nat \<lfloor>randoms w (drawn w) * real (length (coefficients k))\<rfloor>,
               newValue = coefficients k ! nat \<lfloor>randoms w (drawn w) * real (length (coefficients k))\<rfloor>
                   + (randoms w (Suc (drawn w)) - 0.5) * 0.2,
               impact = (randoms w (Suc (drawn w)) - 0.5) * 0.2\<rparr>]"
    and "randoms (snd (mutate k w)) = randoms w"
    and "drawn (snd (mutate k w)) = Suc (Suc (drawn w))"
  using random_index [OF assms]
  by (simp_all add: mutate_def Let_def Math_random_def readNumber_def writeNumber_def
        assignBSeriesGrip_def)

section \<open>The stage of development\<close>

text \<open>The stage after an update depends on the maturity and the new age alone, in this
  order of tests.\<close>

lemma updateDevelopmentStage_stage:
  "stage (ontogeneticState (updateDevelopmentStage k)) =
     (if 0.8 \<le> maturity (ontogeneticState k) \<and> 5 \<le> age (genome k) + 1 then mature
      else if 0.5 \<le> maturity (ontogeneticState k) \<and> 3 \<le> age (genome k) + 1 then juvenile
      else if 20 \<le> age (genome k) + 1 then senescent
      else stage (ontogeneticState k))"
  by (simp add: updateDevelopmentStage_def Let_def)

text \<open>
  C1. The claim: a stage only moves forward along embryonic, juvenile, mature, senescent,
  and an individual of age 20 or more is senescent or becomes so, whatever its maturity.
  \<^verbatim>\<open>updateDevelopmentStage\<close> tests the mature and the juvenile condition before the age
  of senescence, so the code does otherwise at these two kernels. A mature kernel of
  maturity 0.9 that reaches the age 20 stays mature. A senescent kernel of age 20 whose
  maturity has since risen to 0.6 goes back to juvenile at the next update.
\<close>

theorem updateDevelopmentStage_skips_senescence:
  "age (genome (updateDevelopmentStage matureKernel)) = 20
   \<and> stage (ontogeneticState (updateDevelopmentStage matureKernel)) = mature
   \<and> stage (ontogeneticState senescentKernel) = senescent
   \<and> age (genome (updateDevelopmentStage senescentKernel)) = 21
   \<and> stage (ontogeneticState (updateDevelopmentStage senescentKernel)) = juvenile"
  by (simp add: updateDevelopmentStage_def matureKernel_def senescentKernel_def sampleKernel_def
        sampleGenome_def createInitialState_def Let_def)

section \<open>The size of the next generation\<close>

text \<open>When the loop of \<^verbatim>\<open>evolve\<close> ends, the offspring fill the population size less
  \<open>eliteCount\<close>. So the next generation has the population size whenever the population
  holds at least \<open>eliteCount\<close> individuals.\<close>

lemma evolveLoop_filled:
  "evolveLoop s params e off w = (Inr off', w')
     \<Longrightarrow> \<not> int (length off') < int (populationSize params) - e"
proof (induction s params e off w rule: evolveLoop.induct)
  case (1 s params e off w)
  show ?case
  proof (cases "int (length off) < int (populationSize params) - e")
    case False
    with "1.prems" show ?thesis
      by (simp add: evolveLoop.simps [of s params e off w])
  next
    case True
    with "1.prems" obtain off1 w1 where step: "evolveStep s params off w = (Inr off1, w1)"
      and rest: "evolveLoop s params e off1 w1 = (Inr off', w')"
      by (auto simp: evolveLoop.simps [of s params e off w] split: prod.splits sum.splits)
    from "1.IH" [OF True step [symmetric] refl rest] show ?thesis .
  qed
qed

lemma length_slice_from_0:
  "0 \<le> n \<Longrightarrow> length (slice xs 0 n) = min (nat n) (length xs)"
  by (auto simp: slice_def Let_def)

lemma evolve_size_when_elite_found:
  assumes "evolve population params w = (Inr p, w')"
    and "0 \<le> elitismRate params"
    and "\<lfloor>real (populationSize params) * elitismRate params\<rfloor> \<le> int (length (individuals population))"
  shows "length (individuals p) = populationSize params"
proof -
  define s where "s = sort_key (\<lambda>e. - f_overall e) (evaluateFitness (individuals population))"
  define e where "e = \<lfloor>real (populationSize params) * elitismRate params\<rfloor>"
  from assms(2) have e0: "0 \<le> e"
    by (simp add: e_def)
  have len_s: "length s = length (individuals population)"
    by (simp add: s_def evaluateFitness_def)
  from assms(1) obtain off where loop: "evolveLoop s params e [] w = (Inr off, w')"
    and p: "individuals p = map updateDevelopmentStage
              (slice (map kernel (slice s 0 e) @ off) 0 (int (populationSize params)))"
    by (auto simp: evolve_def Let_def s_def e_def split: prod.splits sum.splits)
  from evolveLoop_filled [OF loop] have filled: "int (populationSize params) - e \<le> int (length off)"
    by simp
  from e0 assms(3) have elite: "length (slice s 0 e) = nat e"
    by (simp add: length_slice_from_0 len_s e_def)
  show ?thesis
    using filled e0 by (simp add: p length_slice_from_0 elite)
qed

text \<open>With a population that is not empty and random numbers in \<open>[0, 1)\<close>, every
  tournament finds its candidates, and \<^verbatim>\<open>evolve\<close> returns a population.\<close>

lemma randoms_clone: "clone k w = (c, w') \<Longrightarrow> randoms w' = randoms w"
  by (auto simp: clone_def generateId_def Let_def)

lemma randoms_mutate: "mutate k w = (m, w') \<Longrightarrow> randoms w' = randoms w"
  by (auto simp: mutate_def Let_def Math_random_def assignBSeriesGrip_def)

lemma randoms_crossover: "crossover p1 p2 w = (cs, w') \<Longrightarrow> randoms w' = randoms w"
  by (auto simp: crossover_def Let_def Math_random_def createOffspring_def generateId_def
        assignBSeriesGrip_def)

lemma drawTournament_defined:
  assumes "evs \<noteq> []"
  shows "\<forall>n. 0 \<le> randoms w n \<and> randoms w n < 1 \<Longrightarrow> drawTournament evs n w = (ts, w')
    \<Longrightarrow> (\<exists>xs. those ts = Some xs \<and> length xs = n) \<and> randoms w' = randoms w"
proof (induction n arbitrary: w ts w')
  case 0
  then show ?case by simp
next
  case (Suc n)
  let ?w1 = "w\<lparr>drawn := Suc (drawn w)\<rparr>"
  obtain rest w2 where rest: "drawTournament evs n ?w1 = (rest, w2)"
    by (cases "drawTournament evs n ?w1")
  from Suc.prems(1) have range: "\<forall>n. 0 \<le> randoms ?w1 n \<and> randoms ?w1 n < 1"
    by simp
  from Suc.IH [OF range rest] obtain xs where
    xs: "those rest = Some xs" "length xs = n" and w2: "randoms w2 = randoms w"
    by auto
  from Suc.prems(1) have r: "0 \<le> randoms w (drawn w)" "randoms w (drawn w) < 1"
    by simp_all
  from random_index [OF assms r]
  have idx: "nat \<lfloor>randoms w (drawn w) * real (length evs)\<rfloor> < length evs" .
  from r have nonneg: "0 \<le> \<lfloor>randoms w (drawn w) * real (length evs)\<rfloor>"
    by simp
  with idx have inside: "\<lfloor>randoms w (drawn w) * real (length evs)\<rfloor> < int (length evs)"
    by linarith
  from Suc.prems(2) rest nonneg inside
  have "ts = Some (evs ! nat \<lfloor>randoms w (drawn w) * real (length evs)\<rfloor>) # rest" and "w' = w2"
    by (simp_all add: Math_random_def Let_def)
  with xs w2 show ?case
    by simp
qed

lemma tournamentSelect_returns:
  assumes "evs \<noteq> []" and "\<forall>n. 0 \<le> randoms w n \<and> randoms w n < 1"
  shows "\<exists>chosen w'. tournamentSelect evs 3 w = (Inr chosen, w') \<and> randoms w' = randoms w"
proof -
  obtain ts w1 where draw: "drawTournament evs 3 w = (ts, w1)"
    by (cases "drawTournament evs 3 w")
  from drawTournament_defined [OF assms draw] obtain xs where
    xs: "those ts = Some xs" "length xs = 3" and frame: "randoms w1 = randoms w"
    by auto
  from xs(2) obtain first rest where "xs = first # rest"
    by (cases xs) simp_all
  with xs(1) frame show ?thesis
    by (simp add: tournamentSelect_def draw)
qed

lemma evolveStep_returns:
  assumes "evs \<noteq> []" and "\<forall>n. 0 \<le> randoms w n \<and> randoms w n < 1"
  shows "\<exists>off' w'. evolveStep evs params off w = (Inr off', w') \<and> randoms w' = randoms w"
proof -
  from tournamentSelect_returns [OF assms] obtain parent1 w1 where
    one: "tournamentSelect evs 3 w = (Inr parent1, w1)" and w1: "randoms w1 = randoms w"
    by blast
  from assms(2) w1 have range1: "\<forall>n. 0 \<le> randoms w1 n \<and> randoms w1 n < 1"
    by simp
  from tournamentSelect_returns [OF assms(1) range1] obtain parent2 w2 where
    two: "tournamentSelect evs 3 w1 = (Inr parent2, w2)" and w2: "randoms w2 = randoms w1"
    by blast
  let ?w3 = "w2\<lparr>drawn := Suc (drawn w2)\<rparr>"
  obtain cs wc where cross: "crossover (kernel parent1) (kernel parent2) ?w3 = (cs, wc)"
    by (cases "crossover (kernel parent1) (kernel parent2) ?w3")
  obtain c wl where cl: "clone (kernel parent1) ?w3 = (c, wl)"
    by (cases "clone (kernel parent1) ?w3")
  define branch where "branch =
     (if randoms w2 (drawn w2) < crossoverRate params then (off @ cs, wc) else (off @ [c], wl))"
  obtain off1 w4 where b: "branch = (off1, w4)"
    by (cases branch)
  have w4: "randoms w4 = randoms w"
    using b randoms_crossover [OF cross] randoms_clone [OF cl] w1 w2
    by (auto simp: branch_def split: if_splits)
  let ?w5 = "w4\<lparr>drawn := Suc (drawn w4)\<rparr>"
  obtain m w6 where mu: "mutate (off1 ! (length off1 - 1)) ?w5 = (m, w6)"
    by (cases "mutate (off1 ! (length off1 - 1)) ?w5")
  have w6: "randoms w6 = randoms w"
    using randoms_mutate [OF mu] w4 by simp
  have "evolveStep evs params off w =
          (case branch of (offspring1, w4') \<Rightarrow>
             (let (r2, w5) = Math_random w4'
              in if r2 < mutationRate params then
                   (let last' = offspring1 ! (length offspring1 - 1);
                        (m', w6') = mutate last' w5
                    in (Inr (offspring1[length offspring1 - 1 := m']), w6'))
                 else (Inr offspring1, w5)))"
    by (simp add: evolveStep_def one two Let_def selfReproduce_def Math_random_def cross cl
          branch_def)
  also have "\<dots> = (if randoms w4 (drawn w4) < mutationRate params
           then (Inr (off1[length off1 - 1 := m]), w6) else (Inr off1, ?w5))"
    using mu by (simp add: b Math_random_def Let_def)
  finally show ?thesis
    using w4 w6 by simp
qed

lemma evolveLoop_returns:
  assumes "evs \<noteq> []" and "\<forall>n. 0 \<le> randoms w n \<and> randoms w n < 1"
  shows "\<exists>off' w'. evolveLoop evs params e off w = (Inr off', w')"
  using assms
proof (induction evs params e off w rule: evolveLoop.induct)
  case (1 s params e off w)
  show ?case
  proof (cases "int (length off) < int (populationSize params) - e")
    case False
    then show ?thesis
      by (simp add: evolveLoop.simps [of s params e off w])
  next
    case True
    from evolveStep_returns [OF "1.prems", of params off] obtain off1 w1 where
      step: "evolveStep s params off w = (Inr off1, w1)" and w1: "randoms w1 = randoms w"
      by blast
    from "1.prems"(2) w1 have range1: "\<forall>n. 0 \<le> randoms w1 n \<and> randoms w1 n < 1"
      by simp
    from "1.IH" [OF True step [symmetric] refl "1.prems"(1) range1] obtain off' w' where
      "evolveLoop s params e off1 w1 = (Inr off', w')"
      by blast
    with True step show ?thesis
      by (simp add: evolveLoop.simps [of s params e off w])
  qed
qed

lemma evolve_returns:
  assumes "individuals population \<noteq> []" and "\<forall>n. 0 \<le> randoms w n \<and> randoms w n < 1"
  shows "\<exists>p w'. evolve population params w = (Inr p, w')"
proof -
  define s where "s = sort_key (\<lambda>e. - f_overall e) (evaluateFitness (individuals population))"
  from assms(1) have "length s \<noteq> 0"
    by (simp add: s_def evaluateFitness_def)
  then have "s \<noteq> []"
    by simp
  from evolveLoop_returns [OF this assms(2)] obtain off' w' where
    "evolveLoop s params \<lfloor>real (populationSize params) * elitismRate params\<rfloor> [] w = (Inr off', w')"
    by blast
  then show ?thesis
    by (simp add: evolve_def Let_def s_def)
qed

text \<open>
  C2. The claim: the population that \<^verbatim>\<open>evolve\<close> returns has exactly
  \<^verbatim>\<open>params.populationSize\<close> individuals. The loop fills the offspring up to the
  population size less \<open>eliteCount\<close>, the number of elites asked for, and not less the
  number of elites found. Here the population has one individual and the parameters ask
  for a population of 4 with an elitism rate of 1/2: one elite is found where two are
  counted, two clones are made, and the next generation has 3 individuals.
\<close>

theorem evolve_short_of_population_size:
  "map_sum id (\<lambda>p. length (individuals p))
       (fst (evolve samplePopulation sampleParams sampleWorld)) = Inr 3
   \<and> populationSize sampleParams = 4"
  by (simp add: evolve_def samplePopulation_def sampleParams_def sampleWorld_def sampleKernel_def
        sampleGenome_def createInitialState_def Let_def evaluateFitness_def slice_def
        evolveLoop.simps evolveStep_def tournamentSelect_def Math_random_def clone_def
        generateId_def calculateFitness_def calculateNovelty_def evaluateSymmetry_def
        numeral_3_eq_3)

section \<open>Reproduction and the parents\<close>

text \<open>After a mutation the expansion of the parent holds the grip of the mutant, and
  after \<^verbatim>\<open>createOffspring\<close> the expansion of the first parent holds the grip of the
  offspring. Cloning writes to no expansion.\<close>

lemma mutate_writes_parent_expansion:
  "grip (bSeriesStore (snd (mutate k w)) (bSeries k)) = k_grip (fst (mutate k w))"
  by (simp add: mutate_def Let_def assignBSeriesGrip_def split: prod.splits)

lemma createOffspring_writes_parent_expansion:
  "grip (bSeriesStore (snd (createOffspring p1 p2 cs w)) (bSeries p1))
     = k_grip (fst (createOffspring p1 p2 cs w))"
  by (simp add: createOffspring_def Let_def assignBSeriesGrip_def split: prod.splits)

lemma cloning_keeps_store:
  "bSeriesStore (snd (selfReproduce p1 p2 cloning_method w)) = bSeriesStore w"
  by (simp add: selfReproduce_def clone_def generateId_def Let_def)

text \<open>
  C3. The claim: \<^verbatim>\<open>selfReproduce\<close> leaves both parents as they were, their
  \<^verbatim>\<open>bSeries.grip\<close> in particular. A mutant and a crossover offspring are spreads of a
  parent and hold the parent's expansion object, into which \<^verbatim>\<open>mutate\<close> and
  \<^verbatim>\<open>createOffspring\<close> then assign the recalculated grip. At the two sample kernels
  the efficiency in each parent's expansion is 0.8 before the call; after a mutation it is
  0.76 in both, and after a crossover it is 0.76 in the expansion of the first parent.
\<close>

theorem reproduction_overwrites_parent_grip:
  "efficiency (grip (bSeriesStore sampleWorld (bSeries sampleKernel))) = 0.8
   \<and> efficiency (grip (bSeriesStore sampleWorld (bSeries secondKernel))) = 0.8
   \<and> efficiency (grip (bSeriesStore
         (snd (selfReproduce sampleKernel secondKernel mutation_method sampleWorld))
         (bSeries sampleKernel))) = 0.76
   \<and> efficiency (grip (bSeriesStore
         (snd (selfReproduce sampleKernel secondKernel mutation_method sampleWorld))
         (bSeries secondKernel))) = 0.76
   \<and> efficiency (grip (bSeriesStore
         (snd (selfReproduce sampleKernel secondKernel crossover_method sampleWorld))
         (bSeries sampleKernel))) = 0.76"
  by (simp add: selfReproduce_def mutate_def crossover_def createOffspring_def sample_defs Let_def
        Math_random_def generateId_def assignBSeriesGrip_def recalculateGrip_def
        readNumber_def writeNumber_def)

section \<open>Counting and generating trees\<close>




text \<open>
  C8. \<^verbatim>\<open>generate(4)\<close> returns 5 trees and \<^verbatim>\<open>count(4)\<close> is 4, while for the orders
  1, 2 and 3 the number of generated trees is the count.
\<close>

theorem generate_count_disagree_at_4:
  "length (generate 4) = 5 \<and> count estimate 4 = Finite 4
   \<and> Finite (int (length (generate 1))) = count estimate 1
   \<and> Finite (int (length (generate 2))) = count estimate 2
   \<and> Finite (int (length (generate 3))) = count estimate 3"
  by (simp add: generate.simps catalogue4_def count_def a000081_def)

section \<open>Order conditions of the Runge-Kutta expansion\<close>

text \<open>
  C9. The claim: in the expansion of \<^verbatim>\<open>generateRungeKutta(4)\<close> the coefficients of the
  terms of order 1 sum to 1. \<^verbatim>\<open>generate(4)\<close> returns trees of order 4 only, so the
  expansion has no term of order 1: the sum is 0, and \<^verbatim>\<open>verifyOrderConditions\<close>
  returns false on it.
\<close>

theorem rungeKutta4_order1_sum:
  "orderSum (generateRungeKutta 4) 1 = 0 \<and> \<not> verifyOrderConditions (generateRungeKutta 4)"
proof -
  have sum1: "orderSum (generateRungeKutta 4) (Suc 0) = 0"
    using rungeKutta4_no_order1 by (simp add: orderSum_def)
  have conv: "convergenceOrder (generateRungeKutta 4) = 4"
    by (simp add: generateRungeKutta_def generateExpansion_def Let_def)
  have fact1: "factorial (Suc 0) = 1"
    by (subst factorial.simps) simp
  have "\<not> verifyOrderConditions (generateRungeKutta 4)"
    unfolding verifyOrderConditions_def list_all_iff conv
    by (rule notI, drule bspec [where x = 1]) (simp_all add: sum1 fact1 Let_def)
  with sum1 show ?thesis
    by simp
qed

section \<open>The overall grip\<close>

text \<open>
  C4, as stated: every grip that the system produces has
  \<open>overall = 0.3 contact + 0.3 coverage + 0.2 efficiency + 0.2 stability\<close>. The initial grip
  that the generator makes for the goal \<^verbatim>\<open>speed\<close> has the components 0.6, 0.7, 1.0, 0.6
  and the overall value 0.725, where the weighted sum is 0.71.
\<close>

theorem initializeGrip_not_weighted:
  "overall (initializeGrip speedContext)
     \<noteq> 0.3 * contact (initializeGrip speedContext) + 0.3 * coverage (initializeGrip speedContext)
       + 0.2 * efficiency (initializeGrip speedContext) + 0.2 * stability (initializeGrip speedContext)"
  by (simp add: initializeGrip_def goalMetrics_def speedContext_def)

text \<open>
  C4, amended: the grip of \<^verbatim>\<open>measureGrip\<close> has the weighted sum as its overall value;
  the initial grip of the generator and the grip recalculated by the ontogenesis engine have
  the plain mean of the four components; the composition by chain and by product has the
  mean of the two operands' overall values, and the quotient their sum divided by 2.2.
\<close>

theorem grip_overall_formulas:
  "overall (measureGrip coeffs d)
     = 0.3 * contact (measureGrip coeffs d) + 0.3 * coverage (measureGrip coeffs d)
       + 0.2 * efficiency (measureGrip coeffs d) + 0.2 * stability (measureGrip coeffs d)
   \<and> overall (initializeGrip ctx)
     = (contact (initializeGrip ctx) + coverage (initializeGrip ctx)
        + efficiency (initializeGrip ctx) + stability (initializeGrip ctx)) / 4
   \<and> overall (recalculateGrip k)
     = (contact (recalculateGrip k) + coverage (recalculateGrip k)
        + efficiency (recalculateGrip k) + stability (recalculateGrip k)) / 4
   \<and> overall (grip (chainCompose f g)) = (overall (grip f) + overall (grip g)) / 2
   \<and> overall (grip (productCompose f g)) = (overall (grip f) + overall (grip g)) / 2
   \<and> overall (k_grip (fst (quotientCompose kf kg w)))
     = (overall (k_grip kf) + overall (k_grip kg)) / 2.2"
proof (intro conjI)
  show "overall (measureGrip coeffs d)
     = 0.3 * contact (measureGrip coeffs d) + 0.3 * coverage (measureGrip coeffs d)
       + 0.2 * efficiency (measureGrip coeffs d) + 0.2 * stability (measureGrip coeffs d)"
    by (simp add: measureGrip_def Let_def)
  show "overall (initializeGrip ctx)
     = (contact (initializeGrip ctx) + coverage (initializeGrip ctx)
        + efficiency (initializeGrip ctx) + stability (initializeGrip ctx)) / 4"
    by (simp add: initializeGrip_def split: prod.splits)
  show "overall (recalculateGrip k)
     = (contact (recalculateGrip k) + coverage (recalculateGrip k)
        + efficiency (recalculateGrip k) + stability (recalculateGrip k)) / 4"
    by (simp add: recalculateGrip_def Let_def)
  show "overall (grip (chainCompose f g)) = (overall (grip f) + overall (grip g)) / 2"
    by (simp add: chainCompose_def Let_def)
  show "overall (grip (productCompose f g)) = (overall (grip f) + overall (grip g)) / 2"
    by (simp add: productCompose_def Let_def)
  show "overall (k_grip (fst (quotientCompose kf kg w)))
     = (overall (k_grip kf) + overall (k_grip kg)) / 2.2"
    by (simp add: quotientCompose_def Let_def split: prod.splits)
qed

section \<open>The grip of a chain composition\<close>

text \<open>
  C5, as stated: the efficiency of \<^verbatim>\<open>chainCompose(f, g)\<close> is the average of the two
  efficiencies. Composing the Runge-Kutta expansion of order 1 (efficiency 0.9) with itself
  gives the efficiency 0.81.
\<close>

theorem chainCompose_efficiency_not_average:
  "efficiency (grip (chainCompose (generateRungeKutta 1) (generateRungeKutta 1)))
     \<noteq> (efficiency (grip (generateRungeKutta 1)) + efficiency (grip (generateRungeKutta 1))) / 2"
  by (simp add: chainCompose_def generateRungeKutta_def generateExpansion_def Let_def)

text \<open>
  C5, amended: in the grip of \<^verbatim>\<open>chainCompose(f, g)\<close> the contact, the coverage and the
  overall value are the averages of those of \<open>f\<close> and \<open>g\<close>, the efficiency is the product of
  the two efficiencies, and the stability is the smaller of the two stabilities.
\<close>

theorem chainCompose_grip:
  "contact (grip (chainCompose f g)) = (contact (grip f) + contact (grip g)) / 2
   \<and> coverage (grip (chainCompose f g)) = (coverage (grip f) + coverage (grip g)) / 2
   \<and> efficiency (grip (chainCompose f g)) = efficiency (grip f) * efficiency (grip g)
   \<and> overall (grip (chainCompose f g)) = (overall (grip f) + overall (grip g)) / 2
   \<and> stability (grip (chainCompose f g)) = min (stability (grip f)) (stability (grip g))"
  by (simp add: chainCompose_def Let_def)

section \<open>Reproduction by mutation\<close>

text \<open>
  C6, as stated: the mutated coefficient is within 10 per cent of its old value,
  \<open>new = old (1 + d)\<close>. The source adds \<open>d\<close> to the coefficient. With every random number
  1/4 the first coefficient 1/4 of the sample kernel becomes 1/5: it moves by 0.05, twice
  the tenth of its old value.
\<close>

theorem mutation_is_not_relative:
  "\<bar>coefficients (offspring (fst
        (selfReproduce sampleKernel secondKernel mutation_method sampleWorld)) ! 0) ! 0
      - coefficients sampleKernel ! 0\<bar>
    > 0.1 * \<bar>coefficients sampleKernel ! 0\<bar>"
  by (simp add: selfReproduce_def mutate_def sample_defs Let_def
        Math_random_def assignBSeriesGrip_def recalculateGrip_def
        readNumber_def writeNumber_def)

text \<open>
  C6, amended: for parents with non-empty coefficient arrays, and random numbers in
  \<open>[0, 1)\<close>, \<^verbatim>\<open>selfReproduce(p1, p2, 'mutation')\<close> produces two offspring. The first has
  the coefficients of \<open>p1\<close> with \<open>d1\<close> added at the one index \<open>i1\<close>, where \<open>i1\<close> is the floor of
  the first random number times the length, and \<open>d1\<close> is the second random number less 1/2,
  times 0.2, so that \<open>- 0.1 \<le> d1 < 0.1\<close>; its mutation log is that of \<open>p1\<close> followed by the
  record of the index, the old value, the new value and \<open>d1\<close>. The second is made from
  \<open>p2\<close> in the same way with the third and the fourth random number.
\<close>

theorem selfReproduce_mutation:
  assumes "coefficients p1 \<noteq> []" and "coefficients p2 \<noteq> []"
    and "\<forall>n. 0 \<le> randoms w n \<and> randoms w n < 1"
  shows "let children' = offspring (fst (selfReproduce p1 p2 mutation_method w));
             i1 = nat \<lfloor>randoms w (drawn w) * real (length (coefficients p1))\<rfloor>;
             d1 = (randoms w (drawn w + 1) - 0.5) * 0.2;
             i2 = nat \<lfloor>randoms w (drawn w + 2) * real (length (coefficients p2))\<rfloor>;
             d2 = (randoms w (drawn w + 3) - 0.5) * 0.2
         in length children' = 2
            \<and> i1 < length (coefficients p1) \<and> - 0.1 \<le> d1 \<and> d1 < 0.1
            \<and> coefficients (children' ! 0) = (coefficients p1)[i1 := coefficients p1 ! i1 + d1]
            \<and> mutations (ontogeneticState (children' ! 0))
                = mutations (ontogeneticState p1) @
                  [\<lparr>geneIndex = i1, oldValue = coefficients p1 ! i1,
                    newValue = coefficients p1 ! i1 + d1, impact = d1\<rparr>]
            \<and> i2 < length (coefficients p2) \<and> - 0.1 \<le> d2 \<and> d2 < 0.1
            \<and> coefficients (children' ! 1) = (coefficients p2)[i2 := coefficients p2 ! i2 + d2]
            \<and> mutations (ontogeneticState (children' ! 1))
                = mutations (ontogeneticState p2) @
                  [\<lparr>geneIndex = i2, oldValue = coefficients p2 ! i2,
                    newValue = coefficients p2 ! i2 + d2, impact = d2\<rparr>]"
proof -
  obtain m1 w1 where first: "mutate p1 w = (m1, w1)"
    by (cases "mutate p1 w")
  obtain m2 w2 where second: "mutate p2 w1 = (m2, w2)"
    by (cases "mutate p2 w1")
  from assms(3) have r: "\<And>n. 0 \<le> randoms w n" "\<And>n. randoms w n < 1"
    by simp_all
  note one = mutate_result [OF assms(1) r(1) r(2), unfolded first fst_conv snd_conv]
  from one have w1: "randoms w1 = randoms w" "drawn w1 = Suc (Suc (drawn w))"
    by simp_all
  have r1: "0 \<le> randoms w1 (drawn w1)" "randoms w1 (drawn w1) < 1"
    using r by (simp_all add: w1)
  note two = mutate_result [OF assms(2) r1, unfolded second fst_conv snd_conv w1]
  have children: "offspring (fst (selfReproduce p1 p2 mutation_method w)) = [m1, m2]"
    by (simp add: selfReproduce_def first second)
  have bounds: "\<And>n. - 0.1 \<le> (randoms w n - 0.5) * 0.2 \<and> (randoms w n - 0.5) * 0.2 < 0.1"
    using r by (simp add: field_simps) 
  have idx1: "nat \<lfloor>randoms w (drawn w) * real (length (coefficients p1))\<rfloor> < length (coefficients p1)"
    by (rule random_index [OF assms(1) r(1) r(2)])
  have idx2: "nat \<lfloor>randoms w (drawn w + 2) * real (length (coefficients p2))\<rfloor> < length (coefficients p2)"
    by (rule random_index [OF assms(2) r(1) r(2)])
  show ?thesis
    unfolding Let_def children
    using one(1,2) two(1,2) bounds idx1 idx2
    by (simp add: numeral_3_eq_3)
qed

theorem selfReproduce_mutation_witness:
  "coefficients sampleKernel \<noteq> [] \<and> coefficients secondKernel \<noteq> []
   \<and> (\<forall>n. 0 \<le> randoms sampleWorld n \<and> randoms sampleWorld n < 1)
   \<and> coefficients (offspring (fst
         (selfReproduce sampleKernel secondKernel mutation_method sampleWorld)) ! 0) = [1 / 5, 1]
   \<and> mutations (ontogeneticState (offspring (fst
         (selfReproduce sampleKernel secondKernel mutation_method sampleWorld)) ! 0))
       = [\<lparr>geneIndex = 0, oldValue = 1 / 4, newValue = 1 / 5, impact = - 1 / 20\<rparr>]
   \<and> coefficients (offspring (fst
         (selfReproduce sampleKernel secondKernel mutation_method sampleWorld)) ! 1) = [9 / 20, 3 / 4]
   \<and> mutations (ontogeneticState (offspring (fst
         (selfReproduce sampleKernel secondKernel mutation_method sampleWorld)) ! 1))
       = [\<lparr>geneIndex = 0, oldValue = 1 / 2, newValue = 9 / 20, impact = - 1 / 20\<rparr>]"
proof -
  have first: "coefficients sampleKernel \<noteq> []"
    by (simp add: sampleKernel_def)
  have second: "coefficients secondKernel \<noteq> []"
    by (simp add: secondKernel_def)
  have range: "\<forall>n. 0 \<le> randoms sampleWorld n \<and> randoms sampleWorld n < 1"
    by (simp add: sampleWorld_def)
  from selfReproduce_mutation [OF first second range] first second range show ?thesis
    by (simp add: Let_def sample_defs)
qed

section \<open>The quotient of a kernel with itself\<close>

text \<open>
  C10. The quotient operator applied to a kernel and itself gives a kernel whose
  coefficients are all 0, one for each tree of the kernel's order; and
  \<^verbatim>\<open>selfGenerate\<close> on a parent of maturity 0.8 or more, which selects the quotient
  operator, gives an offspring whose coefficients are all 0.
\<close>

theorem quotient_self_zero:
  "coefficients (result (fst (applyOperator quotient k k w)))
     = replicate (length (generate (k_order k))) 0
   \<and> (0.8 \<le> maturity (ontogeneticState parent)
        \<longrightarrow> coefficients (fst (selfGenerate parent w))
              = replicate (length (generate (k_order parent))) 0)"
proof
  show "coefficients (result (fst (applyOperator quotient k k w)))
     = replicate (length (generate (k_order k))) 0"
    using quotientCompose_self [of k w]
    by (cases "quotientCompose k k w") (simp add: applyOperator_def)
next
  show "0.8 \<le> maturity (ontogeneticState parent)
        \<longrightarrow> coefficients (fst (selfGenerate parent w))
              = replicate (length (generate (k_order parent))) 0"
  proof
    assume old: "0.8 \<le> maturity (ontogeneticState parent)"
    then have op: "selectOperator parent = quotient"
      by (simp add: selectOperator_def Let_def)
    show "coefficients (fst (selfGenerate parent w))
              = replicate (length (generate (k_order parent))) 0"
      using quotientCompose_self [of parent w]
      by (cases "quotientCompose parent parent w")
         (simp add: selfGenerate_def op applyOperator_def initialize_def Let_def
            split: prod.splits)
  qed
qed

theorem quotient_self_zero_witness:
  "0.8 \<le> maturity (ontogeneticState matureKernel)
   \<and> coefficients (fst (selfGenerate matureKernel sampleWorld))
       = replicate (length (generate (k_order matureKernel))) 0"
proof -
  have old: "0.8 \<le> maturity (ontogeneticState matureKernel)"
    by (simp add: matureKernel_def sampleKernel_def createInitialState_def)
  with quotient_self_zero [of matureKernel sampleWorld matureKernel] show ?thesis
    by blast
qed

end
